theory Spec2Isabelle
  imports Main
begin

section \<open>The host's Date object\<close>

text \<open>
  Modelled from the spec: the wall clock and the local time zone of the host, which
  the specification names as the only inputs of the noon computation. The script
  reaches them through the host's \<^verbatim>\<open>Date\<close> object, whose arithmetic is fixed by ECMA-262
  (clause "Date Objects"); the definitions of this section follow that clause, name
  by name.

  A time value is a number of milliseconds since 1970-01-01T00:00:00Z; the host keeps
  it as an integral Number of magnitude at most \<open>maxTime\<close>, or NaN. Integers of
  that size are exact in the host's arithmetic, so a time value is modelled as an
  \<open>int\<close>, and a value that may be NaN as an \<open>int option\<close> with \<open>None\<close> for NaN.
\<close>

definition msPerDay :: int where
  "msPerDay = 86400000"

definition msPerHour :: int where
  "msPerHour = 3600000"

definition msPerMinute :: int where
  "msPerMinute = 60000"

definition msPerSecond :: int where
  "msPerSecond = 1000"

definition maxTime :: int where
  "maxTime = 8640000000000000"

definition Day :: "int \<Rightarrow> int" where
  "Day t = t div msPerDay"

definition TimeWithinDay :: "int \<Rightarrow> int" where
  "TimeWithinDay t = t mod msPerDay"

definition MakeTime :: "int \<Rightarrow> int \<Rightarrow> int \<Rightarrow> int \<Rightarrow> int" where
  "MakeTime hour mn sec ms = hour * msPerHour + mn * msPerMinute + sec * msPerSecond + ms"

definition MakeDate :: "int \<Rightarrow> int \<Rightarrow> int" where
  "MakeDate day time = day * msPerDay + time"

definition TimeClip :: "int \<Rightarrow> int option" where
  "TimeClip t = (if \<bar>t\<bar> > maxTime then None else Some t)"


subsection \<open>The calendar\<close>

definition DaysInYear :: "int \<Rightarrow> int" where
  "DaysInYear y =
     (if y mod 4 \<noteq> 0 then 365
      else if y mod 100 \<noteq> 0 then 366
      else if y mod 400 \<noteq> 0 then 365
      else 366)"

definition DayFromYear :: "int \<Rightarrow> int" where
  "DayFromYear y =
     365 * (y - 1970) + (y - 1969) div 4 - (y - 1901) div 100 + (y - 1601) div 400"

definition TimeFromYear :: "int \<Rightarrow> int" where
  "TimeFromYear y = msPerDay * DayFromYear y"

text \<open>
  \<open>YearFromTime t\<close> is the largest year \<open>y\<close> with \<open>TimeFromYear y \<le> t\<close>. It is computed
  by counting up from a year that is not after the result: no year is longer than 366
  days, and none is shorter than 365. That the count ends, and that it ends on the year
  the standard asks for, is proved in the section on the calendar below.
\<close>

function yearUpFrom :: "int \<Rightarrow> int \<Rightarrow> int" where
  "yearUpFrom y d = (if DayFromYear (y + 1) \<le> d then yearUpFrom (y + 1) d else y)"
  by pat_completeness auto

definition YearFromTime :: "int \<Rightarrow> int" where
  "YearFromTime t =
     (let d = Day t
      in yearUpFrom (1970 + (if 0 \<le> d then d div 366 else d div 365)) d)"

definition InLeapYear :: "int \<Rightarrow> int" where
  "InLeapYear t = (if DaysInYear (YearFromTime t) = 365 then 0 else 1)"

definition DayWithinYear :: "int \<Rightarrow> int" where
  "DayWithinYear t = Day t - DayFromYear (YearFromTime t)"

definition MonthFromTime :: "int \<Rightarrow> int" where
  "MonthFromTime t =
     (let d = DayWithinYear t; leap = InLeapYear t
      in if d < 31 then 0
         else if d < 59 + leap then 1
         else if d < 90 + leap then 2
         else if d < 120 + leap then 3
         else if d < 151 + leap then 4
         else if d < 181 + leap then 5
         else if d < 212 + leap then 6
         else if d < 243 + leap then 7
         else if d < 273 + leap then 8
         else if d < 304 + leap then 9
         else if d < 334 + leap then 10
         else 11)"

definition DateFromTime :: "int \<Rightarrow> int" where
  "DateFromTime t =
     (let d = DayWithinYear t; leap = InLeapYear t; m = MonthFromTime t
      in if m = 0 then d + 1
         else if m = 1 then d - 30
         else if m = 2 then d - 58 - leap
         else if m = 3 then d - 89 - leap
         else if m = 4 then d - 119 - leap
         else if m = 5 then d - 150 - leap
         else if m = 6 then d - 180 - leap
         else if m = 7 then d - 211 - leap
         else if m = 8 then d - 242 - leap
         else if m = 9 then d - 272 - leap
         else if m = 10 then d - 303 - leap
         else d - 333 - leap)"

text \<open>
  \<open>MakeDay year month date\<close> finds the day on which the month \<open>month\<close> of \<open>year\<close> begins (a
  month number outside \<open>0..11\<close> carries into the year) and returns that day number plus
  \<open>date - 1\<close>. Its arguments are integers here, and the host computes the day for every
  year that a time value can reach, so the result is always a day number.
  \<open>monthStart\<close> is the day within the year on which a month begins; lemma
  \<open>firstDayOfMonth_found\<close> below shows that the day so computed is the one the
  standard asks for.
\<close>

definition monthStart :: "int \<Rightarrow> int \<Rightarrow> int" where
  "monthStart m leap =
     (if m = 0 then 0
      else if m = 1 then 31
      else if m = 2 then 59 + leap
      else if m = 3 then 90 + leap
      else if m = 4 then 120 + leap
      else if m = 5 then 151 + leap
      else if m = 6 then 181 + leap
      else if m = 7 then 212 + leap
      else if m = 8 then 243 + leap
      else if m = 9 then 273 + leap
      else if m = 10 then 304 + leap
      else 334 + leap)"

definition firstDayOfMonth :: "int \<Rightarrow> int \<Rightarrow> int" where
  "firstDayOfMonth ym mn =
     DayFromYear ym + monthStart mn (if DaysInYear ym = 365 then 0 else 1)"

definition MakeDay :: "int \<Rightarrow> int \<Rightarrow> int \<Rightarrow> int" where
  "MakeDay year month date =
     (let ym = year + month div 12;
          mn = month mod 12
      in firstDayOfMonth ym mn + date - 1)"


subsection \<open>Local time\<close>

text \<open>
  The host's time zone is its function \<open>LocalTZA\<close>: \<open>tza t True\<close> is the offset of local
  time from UTC, in milliseconds, at the instant \<open>t\<close>, and \<open>tza t False\<close> is the offset the
  host uses to read \<open>t\<close> as a local time (at a local time that a transition repeats or
  skips, the offset before the transition). The zone is an input of the program.
\<close>

type_synonym timezone = "int \<Rightarrow> bool \<Rightarrow> int"

definition LocalTime :: "timezone \<Rightarrow> int \<Rightarrow> int" where
  "LocalTime tza t = t + tza t True"

definition UTC :: "timezone \<Rightarrow> int \<Rightarrow> int" where
  "UTC tza t = t - tza t False"


subsection \<open>The methods of Date that the script calls\<close>

text \<open>
  A Date object is its one internal slot, the time value. \<^verbatim>\<open>new Date()\<close> stores the
  reading of the clock; \<^verbatim>\<open>setHours\<close> and \<^verbatim>\<open>setDate\<close> overwrite the slot, so they map the
  old slot to the new one.
\<close>

type_synonym Date = "int option"

definition new_Date :: "int \<Rightarrow> Date" where
  "new_Date clock = Some clock"

definition setHours :: "timezone \<Rightarrow> int \<Rightarrow> int \<Rightarrow> int \<Rightarrow> int \<Rightarrow> Date \<Rightarrow> Date" where
  "setHours tza hour mn sec ms this =
     (case this of
        None \<Rightarrow> None
      | Some t0 \<Rightarrow>
          (let t = LocalTime tza t0;
               date = MakeDate (Day t) (MakeTime hour mn sec ms)
           in TimeClip (UTC tza date)))"

definition getDate :: "timezone \<Rightarrow> Date \<Rightarrow> int option" where
  "getDate tza this =
     (case this of None \<Rightarrow> None | Some t \<Rightarrow> Some (DateFromTime (LocalTime tza t)))"

definition setDate :: "timezone \<Rightarrow> int option \<Rightarrow> Date \<Rightarrow> Date" where
  "setDate tza date this =
     (case this of
        None \<Rightarrow> None
      | Some t0 \<Rightarrow>
          (case date of
             None \<Rightarrow> None
           | Some dt \<Rightarrow>
               (let t = LocalTime tza t0;
                    newDate = MakeDate (MakeDay (YearFromTime t) (MonthFromTime t) dt)
                                (TimeWithinDay t)
                in TimeClip (UTC tza newDate))))"

definition getTime :: "Date \<Rightarrow> int option" where
  "getTime this = this"

text \<open>\<^verbatim>\<open>a <= b\<close> on two Date objects compares their time values; with a NaN it is false.\<close>

definition date_le :: "Date \<Rightarrow> Date \<Rightarrow> bool" where
  "date_le a b = (case (a, b) of (Some x, Some y) \<Rightarrow> x \<le> y | _ \<Rightarrow> False)"

text \<open>\<^verbatim>\<open>x + 1\<close> on Numbers: NaN stays NaN.\<close>

definition number_add :: "int option \<Rightarrow> int \<Rightarrow> int option" where
  "number_add x k = (case x of None \<Rightarrow> None | Some v \<Rightarrow> Some (v + k))"


section \<open>The host's extension interfaces\<close>

text \<open>
  Modelled from the spec: the alarm store, the dynamic rule set and the open tabs of
  the host, and the three calls the script makes on them (section 6 of the
  specification). The script inspects no result of these calls, so each is a map from
  the state of the host to its next state.

  The records and datatypes keep the names of the host's interface. Where a name is a
  keyword or a constant of the logic it is changed: \<open>when'\<close> stands for \<^verbatim>\<open>when\<close>, \<open>rule_id\<close> for
  \<^verbatim>\<open>id\<close>, \<open>action_type\<close> for \<^verbatim>\<open>type\<close>, \<open>header_value\<close> for \<^verbatim>\<open>value\<close>, \<open>set_header\<close>, \<open>append_header\<close>
  and \<open>remove_header\<close> for the operations \<^verbatim>\<open>set\<close>, \<^verbatim>\<open>append\<close> and \<^verbatim>\<open>remove\<close>, \<open>image_resource\<close> and
  \<open>object_resource\<close> for the resource types \<^verbatim>\<open>image\<close> and \<^verbatim>\<open>object\<close>. In \<open>AlarmCreateInfo\<close> the
  value \<open>None\<close> of \<open>when'\<close> is the Number NaN.
\<close>

record AlarmCreateInfo =
  when' :: "int option"
  periodInMinutes :: int

datatype ResourceType =
    main_frame | sub_frame | stylesheet | script | image_resource | font
  | object_resource | xmlhttprequest | ping | csp_report | media | websocket
  | webtransport | webbundle | other

datatype HeaderOperation = append_header | set_header | remove_header

datatype RuleActionType =
    block | redirect | allow | upgradeScheme | modifyHeaders | allowAllRequests

record ModifyHeaderInfo =
  header :: string
  operation :: HeaderOperation
  header_value :: string

record RuleAction =
  action_type :: RuleActionType
  requestHeaders :: "ModifyHeaderInfo list"

record RuleCondition =
  urlFilter :: string
  resourceTypes :: "ResourceType list"

record Rule =
  rule_id :: int
  priority :: int
  action :: RuleAction
  condition :: RuleCondition

record UpdateRuleOptions =
  removeRuleIds :: "int list"
  addRules :: "Rule list"

record CreateProperties =
  url :: string

text \<open>
  The alarm that the host passes to a listener of \<^verbatim>\<open>onAlarm\<close>: the listener of the script
  reads its \<^verbatim>\<open>name\<close> only, the other fields are the rest of the record.
\<close>

record Alarm =
  name :: string

record browser =
  alarms :: "(string \<times> AlarmCreateInfo) list"
  dynamicRules :: "Rule list"
  tabs :: "CreateProperties list"

text \<open>
  Modelled from the spec: \<^verbatim>\<open>chrome.alarms.create(name, alarmInfo)\<close> registers the alarm
  under its name; the host keeps one alarm per name, so an alarm of the same name is
  replaced.
\<close>

definition alarms_create :: "string \<Rightarrow> AlarmCreateInfo \<Rightarrow> browser \<Rightarrow> browser" where
  "alarms_create nm alarmInfo b =
     b\<lparr>alarms := [(k, i) \<leftarrow> alarms b. k \<noteq> nm] @ [(nm, alarmInfo)]\<rparr>"

text \<open>
  Modelled from the spec: \<^verbatim>\<open>chrome.declarativeNetRequest.updateDynamicRules(options)\<close>
  removes the rules whose identifiers are listed in \<^verbatim>\<open>removeRuleIds\<close> and then adds the
  rules of \<^verbatim>\<open>addRules\<close>, as one step.
\<close>

definition updateDynamicRules :: "UpdateRuleOptions \<Rightarrow> browser \<Rightarrow> browser" where
  "updateDynamicRules options b =
     b\<lparr>dynamicRules :=
         [r \<leftarrow> dynamicRules b. rule_id r \<notin> set (removeRuleIds options)] @ addRules options\<rparr>"

text \<open>Modelled from the spec: \<^verbatim>\<open>chrome.tabs.create({url})\<close> opens one new tab at the URL.\<close>

definition tabs_create :: "CreateProperties \<Rightarrow> browser \<Rightarrow> browser" where
  "tabs_create createProperties b = b\<lparr>tabs := tabs b @ [createProperties]\<rparr>"

text \<open>
  Modelled from the spec: how the host applies a header rule to a request. The
  condition holds when the URL of the request contains \<^verbatim>\<open>urlFilter\<close> and the resource type
  of the request is listed in \<^verbatim>\<open>resourceTypes\<close>; a \<^verbatim>\<open>modifyHeaders\<close> action then carries out
  its header operations in order, and \<^verbatim>\<open>set\<close> gives the named header the value, replacing
  any value it had.
\<close>

record Request =
  request_url :: string
  request_type :: ResourceType
  request_headers :: "(string \<times> string) list"

fun startsWith :: "string \<Rightarrow> string \<Rightarrow> bool" where
  "startsWith [] s = True"
| "startsWith (p # ps) [] = False"
| "startsWith (p # ps) (c # cs) = (p = c \<and> startsWith ps cs)"

fun contains :: "string \<Rightarrow> string \<Rightarrow> bool" where
  "contains p [] = (p = [])"
| "contains p (c # cs) = (startsWith p (c # cs) \<or> contains p cs)"

definition conditionHolds :: "RuleCondition \<Rightarrow> Request \<Rightarrow> bool" where
  "conditionHolds c req \<longleftrightarrow>
     contains (urlFilter c) (request_url req) \<and> request_type req \<in> set (resourceTypes c)"

fun modifyHeader :: "ModifyHeaderInfo \<Rightarrow> (string \<times> string) list \<Rightarrow> (string \<times> string) list" where
  "modifyHeader info hs =
     (case operation info of
        set_header \<Rightarrow> [(k, v) \<leftarrow> hs. k \<noteq> header info] @ [(header info, header_value info)]
      | append_header \<Rightarrow> hs @ [(header info, header_value info)]
      | remove_header \<Rightarrow> [(k, v) \<leftarrow> hs. k \<noteq> header info])"

definition applyRule :: "Rule \<Rightarrow> Request \<Rightarrow> Request" where
  "applyRule r req =
     (if conditionHolds (condition r) req \<and> action_type (action r) = modifyHeaders
      then req\<lparr>request_headers := fold modifyHeader (requestHeaders (action r)) (request_headers req)\<rparr>
      else req)"


section \<open>background.js\<close>

subsection \<open>getNextNoon\<close>

text \<open>
  \<^verbatim>\<open>
  function getNextNoon() {
    const now = new Date();
    const next = new Date();
    next.setHours(12, 0, 0, 0);
    if (next <= now) {
      next.setDate(next.getDate() + 1);
    }
    return next.getTime();
  }
  \<close>
  The function reads the clock twice: \<open>clock1\<close> is the reading that \<^verbatim>\<open>now\<close> keeps,
  \<open>clock2\<close> the one that \<^verbatim>\<open>next\<close> starts from.
\<close>

definition getNextNoon :: "timezone \<Rightarrow> int \<Rightarrow> int \<Rightarrow> int option" where
  "getNextNoon tza clock1 clock2 =
     (let now = new_Date clock1;
          next0 = new_Date clock2;
          next1 = setHours tza 12 0 0 0 next0;
          next2 = (if date_le next1 now
                   then setDate tza (number_add (getDate tza next1) 1) next1
                   else next1)
      in getTime next2)"


subsection \<open>setupDailyAlarm\<close>

text \<open>
  \<^verbatim>\<open>
  function setupDailyAlarm() {
    chrome.alarms.create("dailyCheck", {
      when: getNextNoon(),
      periodInMinutes: 1440
    });
  }
  \<close>
\<close>

definition setupDailyAlarm :: "timezone \<Rightarrow> int \<Rightarrow> int \<Rightarrow> browser \<Rightarrow> browser" where
  "setupDailyAlarm tza clock1 clock2 b =
     alarms_create ''dailyCheck''
       \<lparr>when' = getNextNoon tza clock1 clock2, periodInMinutes = 1440\<rparr> b"


subsection \<open>The listener of \<^verbatim>\<open>chrome.runtime.onInstalled\<close>\<close>

definition RULE_ID :: int where
  "RULE_ID = 1"

definition MOBILE_USER_AGENT :: string where
  "MOBILE_USER_AGENT =
     ''Mozilla/5.0 (iPhone; CPU iPhone OS 16_0 like Mac OS X) AppleWebKit/605.1.15 (KHTML, like Gecko) Version/16.0 Mobile/15E148 Safari/604.1''"

text \<open>The object that the listener passes to \<^verbatim>\<open>updateDynamicRules\<close> (lines 9 to 31).\<close>

definition headerRule :: Rule where
  "headerRule =
     \<lparr>rule_id = RULE_ID,
      priority = 1,
      action =
        \<lparr>action_type = modifyHeaders,
         requestHeaders =
           [\<lparr>header = ''User-Agent'', operation = set_header, header_value = MOBILE_USER_AGENT\<rparr>]\<rparr>,
      condition =
        \<lparr>urlFilter = ''m.search.naver.com'',
         resourceTypes = [xmlhttprequest, sub_frame, main_frame]\<rparr>\<rparr>"

definition ruleUpdate :: UpdateRuleOptions where
  "ruleUpdate = \<lparr>removeRuleIds = [RULE_ID], addRules = [headerRule]\<rparr>"

definition onInstalled :: "timezone \<Rightarrow> int \<Rightarrow> int \<Rightarrow> browser \<Rightarrow> browser" where
  "onInstalled tza clock1 clock2 b =
     updateDynamicRules ruleUpdate (setupDailyAlarm tza clock1 clock2 b)"

text \<open>
  A sequence of install and update events: each event runs the listener once, with its
  own two readings of the clock.
\<close>

fun installs :: "timezone \<Rightarrow> (int \<times> int) list \<Rightarrow> browser \<Rightarrow> browser" where
  "installs tza [] b = b"
| "installs tza ((clock1, clock2) # events) b = installs tza events (onInstalled tza clock1 clock2 b)"


subsection \<open>The listener of \<^verbatim>\<open>chrome.alarms.onAlarm\<close>\<close>

text \<open>
  \<^verbatim>\<open>
  chrome.alarms.onAlarm.addListener((alarm) => {
    if (alarm.name === "dailyCheck") {
      chrome.tabs.create({ url: 'dashboard.html?auto=true' });
    }
  });
  \<close>
\<close>

definition onAlarm :: "'a Alarm_scheme \<Rightarrow> browser \<Rightarrow> browser" where
  "onAlarm alarm b =
     (if name alarm = ''dailyCheck''
      then tabs_create \<lparr>url = ''dashboard.html?auto=true''\<rparr> b
      else b)"


section \<open>The notions of the specification\<close>

text \<open>
  Today's local noon is 12:00:00.000 on the local calendar day of the current time:
  \<open>localNoon\<close> is that local time and \<open>todayNoon\<close> the instant that the host takes for it.
  \<open>localNoonTomorrow\<close> and \<open>tomorrowNoon\<close> are the same for the following local day.
\<close>

definition noon :: int where
  "noon = 12 * msPerHour"

definition localNoon :: "timezone \<Rightarrow> int \<Rightarrow> int" where
  "localNoon tza now = MakeDate (Day (LocalTime tza now)) noon"

definition todayNoon :: "timezone \<Rightarrow> int \<Rightarrow> int" where
  "todayNoon tza now = UTC tza (localNoon tza now)"

definition localNoonTomorrow :: "timezone \<Rightarrow> int \<Rightarrow> int" where
  "localNoonTomorrow tza now = MakeDate (Day (LocalTime tza now) + 1) noon"

definition tomorrowNoon :: "timezone \<Rightarrow> int \<Rightarrow> int" where
  "tomorrowNoon tza now = UTC tza (localNoonTomorrow tza now)"

text \<open>
  Today's and tomorrow's noon are time values of the host: the current time is not in
  the last two days before an end of the host's range (the ends are in the years
  -271821 and 275760).
\<close>

definition withinRange :: "timezone \<Rightarrow> int \<Rightarrow> bool" where
  "withinRange tza now \<longleftrightarrow>
     \<bar>todayNoon tza now\<bar> \<le> maxTime \<and> \<bar>tomorrowNoon tza now\<bar> \<le> maxTime"

text \<open>A time zone without transitions: the offset from UTC is always \<open>c\<close>.\<close>

definition fixedZone :: "int \<Rightarrow> timezone" where
  "fixedZone c = (\<lambda>t isUTC. c)"

text \<open>
  A time zone with one transition, the end of daylight saving time in New York on
  2026-11-01: at 06:00:00 UTC the local clock goes from 02:00 back to 01:00, and the
  offset from four hours behind UTC to five. A local time before 02:00 of that day is
  read with the offset before the transition.
\<close>

definition newYork2026 :: timezone where
  "newYork2026 t isUTC =
     (if isUTC
      then (if t < 1793512800000 then - 4 * msPerHour else - 5 * msPerHour)
      else (if t < 1793498400000 then - 4 * msPerHour else - 5 * msPerHour))"

text \<open>
  A time zone with one transition, the end of daylight saving time in Santiago de Chile
  on 2026-04-05: at 03:00:00 UTC the local clock goes from 24:00 of 2026-04-04 back to
  23:00, and the offset from three hours behind UTC to four. A local time before 24:00
  of that day is read with the offset before the transition.
\<close>

definition santiago2026 :: timezone where
  "santiago2026 t isUTC =
     (if isUTC
      then (if t < 1775358000000 then - 3 * msPerHour else - 4 * msPerHour)
      else (if t < 1775347200000 then - 3 * msPerHour else - 4 * msPerHour))"

text \<open>The tabs that a step from \<open>b\<close> to \<open>b'\<close> has opened: those after the tabs of \<open>b\<close>.\<close>

definition openedTabs :: "browser \<Rightarrow> browser \<Rightarrow> CreateProperties list" where
  "openedTabs b b' = drop (length (tabs b)) (tabs b')"

text \<open>The query parameters of a URL: the pairs \<open>key=value\<close> after the first \<open>?\<close>, between \<open>&\<close>.\<close>

fun splitOn :: "char \<Rightarrow> string \<Rightarrow> string list" where
  "splitOn sep [] = [[]]"
| "splitOn sep (c # cs) =
     (if c = sep then [] # splitOn sep cs
      else (case splitOn sep cs of [] \<Rightarrow> [[c]] | w # ws \<Rightarrow> (c # w) # ws))"

definition queryParameters :: "string \<Rightarrow> (string \<times> string) list" where
  "queryParameters u =
     map (\<lambda>kv. (takeWhile (\<lambda>c. c \<noteq> CHR ''='') kv, drop 1 (dropWhile (\<lambda>c. c \<noteq> CHR ''='') kv)))
       (splitOn CHR ''&'' (drop 1 (dropWhile (\<lambda>c. c \<noteq> CHR ''?'') u)))"


section \<open>The calendar of the host is well defined\<close>

text \<open>One more in the dividend moves the quotient up exactly at the multiples of the divisor.\<close>

lemma div_step:
  fixes a n :: int
  assumes n: "0 < n"
  shows "(a + 1) div n = a div n + (if (a + 1) mod n = 0 then 1 else 0)"
proof (cases "a mod n + 1 = n")
  case True
  have "n * (a div n + 1) = n * (a div n) + n"
    by (simp add: algebra_simps)
  with True mult_div_mod_eq [of n a] have eq: "a + 1 = n * (a div n + 1) + 0"
    by linarith
  have "(a + 1) div n = a div n + 1"
    by (rule int_div_pos_eq [OF eq]) (use n in simp_all)
  moreover have "(a + 1) mod n = 0"
    by (rule int_mod_pos_eq [OF eq]) (use n in simp_all)
  ultimately show ?thesis
    by simp
next
  case False
  have lt: "a mod n + 1 < n"
    using False pos_mod_bound [OF n, of a] by simp
  have ge: "0 \<le> a mod n + 1"
    using pos_mod_sign [OF n, of a] by simp
  have eq: "a + 1 = n * (a div n) + (a mod n + 1)"
    using mult_div_mod_eq [of n a] by linarith
  have "(a + 1) div n = a div n"
    by (rule int_div_pos_eq [OF eq ge lt])
  moreover have "(a + 1) mod n = a mod n + 1"
    by (rule int_mod_pos_eq [OF eq ge lt])
  moreover have "a mod n + 1 \<noteq> 0"
    using pos_mod_sign [OF n, of a] by simp
  ultimately show ?thesis
    by simp
qed

lemma mod_shift:
  fixes y k n :: int
  assumes "n dvd k"
  shows "(y - k) mod n = 0 \<longleftrightarrow> y mod n = 0"
  using assms by (simp add: mod_eq_0_iff_dvd dvd_diff_left_iff)

lemma mod_100_4: "(y::int) mod 100 = 0 \<Longrightarrow> y mod 4 = 0"
proof -
  assume "y mod 100 = 0"
  then have "100 dvd y" by (simp add: mod_eq_0_iff_dvd)
  moreover have "(4::int) dvd 100" by simp
  ultimately have "4 dvd y" by (rule dvd_trans [rotated])
  then show ?thesis by (simp add: mod_eq_0_iff_dvd)
qed

lemma mod_400_100: "(y::int) mod 400 = 0 \<Longrightarrow> y mod 100 = 0"
proof -
  assume "y mod 400 = 0"
  then have "400 dvd y" by (simp add: mod_eq_0_iff_dvd)
  moreover have "(100::int) dvd 400" by simp
  ultimately have "100 dvd y" by (rule dvd_trans [rotated])
  then show ?thesis by (simp add: mod_eq_0_iff_dvd)
qed

text \<open>The day on which a year begins is the sum of the lengths of the years before it.\<close>

lemma DayFromYear_Suc: "DayFromYear (y + 1) = DayFromYear y + DaysInYear y"
proof -
  have a: "(y + 1 - 1969) div 4 = (y - 1969) div 4 + (if y mod 4 = 0 then 1 else 0)"
    using div_step [of 4 "y - 1969"] mod_shift [of 4 1968 y] by simp
  have b: "(y + 1 - 1901) div 100 = (y - 1901) div 100 + (if y mod 100 = 0 then 1 else 0)"
    using div_step [of 100 "y - 1901"] mod_shift [of 100 1900 y] by simp
  have c: "(y + 1 - 1601) div 400 = (y - 1601) div 400 + (if y mod 400 = 0 then 1 else 0)"
    using div_step [of 400 "y - 1601"] mod_shift [of 400 1600 y] by simp
  show ?thesis
    unfolding DayFromYear_def DaysInYear_def a b c
    using mod_100_4 [of y] mod_400_100 [of y] by auto
qed

lemma DaysInYear_cases: "DaysInYear y = 365 \<or> DaysInYear y = 366"
  unfolding DaysInYear_def by simp

lemma DayFromYear_less: "DayFromYear y < DayFromYear (y + 1)"
  using DaysInYear_cases [of y] by (auto simp: DayFromYear_Suc)

text \<open>Counting the years up ends: each step comes closer to the day that is looked for.\<close>

termination yearUpFrom
proof (relation "measure (\<lambda>(y, d). nat (d - DayFromYear y))")
  show "wf (measure (\<lambda>(y, d). nat (d - DayFromYear y)))"
    by simp
next
  fix y d :: int
  assume "DayFromYear (y + 1) \<le> d"
  with DayFromYear_less [of y]
  show "((y + 1, d), (y, d)) \<in> measure (\<lambda>(y, d). nat (d - DayFromYear y))"
    by simp
qed

declare yearUpFrom.simps [simp del]

lemma yearUpFrom_bounds:
  "DayFromYear y \<le> d \<Longrightarrow>
     DayFromYear (yearUpFrom y d) \<le> d \<and> d < DayFromYear (yearUpFrom y d + 1)"
proof (induction y d rule: yearUpFrom.induct)
  case (1 y d)
  show ?case
  proof (cases "DayFromYear (y + 1) \<le> d")
    case True
    with "1.IH" have "DayFromYear (yearUpFrom (y + 1) d) \<le> d \<and> d < DayFromYear (yearUpFrom (y + 1) d + 1)"
      by simp
    moreover from True have "yearUpFrom y d = yearUpFrom (y + 1) d"
      by (subst yearUpFrom.simps) simp
    ultimately show ?thesis
      by simp
  next
    case False
    then have "yearUpFrom y d = y"
      by (subst yearUpFrom.simps) simp
    with False "1.prems" show ?thesis
      by simp
  qed
qed

lemma DayFromYear_1970: "DayFromYear 1970 = 0"
  by (simp add: DayFromYear_def)

lemma DayFromYear_upper: "0 \<le> k \<Longrightarrow> DayFromYear (1970 + k) \<le> 366 * k"
proof (induction k rule: int_ge_induct)
  case base
  show ?case by (simp add: DayFromYear_1970)
next
  case (step i)
  have "DayFromYear (1970 + (i + 1)) = DayFromYear (1970 + i) + DaysInYear (1970 + i)"
    using DayFromYear_Suc [of "1970 + i"] by (simp add: add.assoc)
  with step.IH DaysInYear_cases [of "1970 + i"] show ?case
    by auto
qed

lemma DayFromYear_lower: "k \<le> 0 \<Longrightarrow> DayFromYear (1970 + k) \<le> 365 * k"
proof (induction k rule: int_le_induct)
  case base
  show ?case by (simp add: DayFromYear_1970)
next
  case (step i)
  have "DayFromYear (1970 + (i - 1) + 1) = DayFromYear (1970 + (i - 1)) + DaysInYear (1970 + (i - 1))"
    by (rule DayFromYear_Suc)
  then have "DayFromYear (1970 + i) = DayFromYear (1970 + (i - 1)) + DaysInYear (1970 + (i - 1))"
    by simp
  with step.IH DaysInYear_cases [of "1970 + (i - 1)"] show ?case
    by auto
qed

lemma year_start_le: "DayFromYear (1970 + (if 0 \<le> d then d div 366 else d div 365)) \<le> d"
proof (cases "0 \<le> d")
  case True
  then have "0 \<le> d div 366"
    by simp
  then have "DayFromYear (1970 + d div 366) \<le> 366 * (d div 366)"
    by (rule DayFromYear_upper)
  also have "\<dots> \<le> d"
    using mult_div_mod_eq [of 366 d] pos_mod_sign [of 366 d] by linarith
  finally show ?thesis
    using True by simp
next
  case False
  then have "d div 365 \<le> 0"
    using div_neg_pos_less0 [of d 365] by simp
  then have "DayFromYear (1970 + d div 365) \<le> 365 * (d div 365)"
    by (rule DayFromYear_lower)
  also have "\<dots> \<le> d"
    using mult_div_mod_eq [of 365 d] pos_mod_sign [of 365 d] by linarith
  finally show ?thesis
    using False by simp
qed

text \<open>\<open>YearFromTime\<close> returns the year in which the day lies.\<close>

lemma YearFromTime_bounds:
  "DayFromYear (YearFromTime t) \<le> Day t \<and> Day t < DayFromYear (YearFromTime t + 1)"
  unfolding YearFromTime_def Let_def by (rule yearUpFrom_bounds) (rule year_start_le)


lemma DayWithinYear_bounds:
  "0 \<le> DayWithinYear t \<and> DayWithinYear t < DaysInYear (YearFromTime t)"
  using YearFromTime_bounds [of t] DayFromYear_Suc [of "YearFromTime t"]
  by (simp add: DayWithinYear_def)

lemma MonthFromTime_range: "0 \<le> MonthFromTime t \<and> MonthFromTime t \<le> 11"
  by (simp add: MonthFromTime_def Let_def)

lemma InLeapYear_cases: "InLeapYear t = 0 \<or> InLeapYear t = 1"
  by (simp add: InLeapYear_def)

lemma DateFromTime_monthStart:
  "DateFromTime t = DayWithinYear t - monthStart (MonthFromTime t) (InLeapYear t) + 1"
  by (simp add: DateFromTime_def monthStart_def Let_def)

lemma monthStart_le:
  "monthStart (MonthFromTime t) (InLeapYear t) \<le> DayWithinYear t"
  using DayWithinYear_bounds [of t] InLeapYear_cases [of t]
  by (auto simp add: monthStart_def MonthFromTime_def Let_def)

lemma monthStart_ge:
  "DayWithinYear t - 30 \<le> monthStart (MonthFromTime t) (InLeapYear t)"
proof -
  have "DayWithinYear t < 365 + InLeapYear t"
    using DayWithinYear_bounds [of t] DaysInYear_cases [of "YearFromTime t"]
    by (auto simp add: InLeapYear_def)
  then show ?thesis
    using InLeapYear_cases [of t]
    by (auto simp add: monthStart_def MonthFromTime_def Let_def)
qed

lemma DateFromTime_range: "1 \<le> DateFromTime t \<and> DateFromTime t \<le> 31"
  using monthStart_le [of t] monthStart_ge [of t] by (simp add: DateFromTime_monthStart)

lemma firstDayOfMonth_of_time:
  "firstDayOfMonth (YearFromTime t) (MonthFromTime t) = Day t - (DateFromTime t - 1)"
  by (simp add: firstDayOfMonth_def DateFromTime_monthStart DayWithinYear_def InLeapYear_def)

text \<open>
  \<open>MakeDay\<close> on the year and month of a time value, as \<^verbatim>\<open>setDate\<close> calls it: the date counts from
  the first day of that month, beyond its end too.
\<close>

lemma MakeDay_of_time:
  "MakeDay (YearFromTime t) (MonthFromTime t) dt = Day t - DateFromTime t + dt"
proof -
  have "MonthFromTime t div 12 = 0" "MonthFromTime t mod 12 = MonthFromTime t"
    using MonthFromTime_range [of t] by simp_all
  then show ?thesis
    by (simp add: MakeDay_def Let_def firstDayOfMonth_of_time)
qed

lemma DayFromYear_mono: "y \<le> z \<Longrightarrow> DayFromYear y \<le> DayFromYear z"
proof (induction z rule: int_ge_induct)
  case base
  show ?case by simp
next
  case (step i)
  with DayFromYear_less [of i] show ?case
    by simp
qed

lemma YearFromTime_unique:
  assumes "DayFromYear y \<le> Day t" and "Day t < DayFromYear (y + 1)"
  shows "YearFromTime t = y"
proof (rule ccontr)
  assume "YearFromTime t \<noteq> y"
  then consider "YearFromTime t + 1 \<le> y" | "y + 1 \<le> YearFromTime t"
    by linarith
  then show False
  proof cases
    case 1
    then have "DayFromYear (YearFromTime t + 1) \<le> DayFromYear y"
      by (rule DayFromYear_mono)
    with assms(1) YearFromTime_bounds [of t] show False
      by simp
  next
    case 2
    then have "DayFromYear (y + 1) \<le> DayFromYear (YearFromTime t)"
      by (rule DayFromYear_mono)
    with assms(2) YearFromTime_bounds [of t] show False
      by simp
  qed
qed

lemma Day_ge_iff: "d \<le> Day t \<longleftrightarrow> msPerDay * d \<le> t"
proof
  assume "d \<le> Day t"
  then have "msPerDay * d \<le> msPerDay * (t div msPerDay)"
    by (simp add: Day_def msPerDay_def)
  also have "\<dots> \<le> t"
    using mult_div_mod_eq [of msPerDay t] pos_mod_sign [of msPerDay t]
    by (simp add: msPerDay_def)
  finally show "msPerDay * d \<le> t" .
next
  assume "msPerDay * d \<le> t"
  then have "(msPerDay * d) div msPerDay \<le> t div msPerDay"
    by (rule zdiv_mono1) (simp add: msPerDay_def)
  then show "d \<le> Day t"
    by (simp add: Day_def msPerDay_def)
qed

text \<open>The standard's own wording of \<open>YearFromTime\<close> and of the day that \<open>MakeDay\<close> has to find.\<close>

lemma YearFromTime_largest:
  "TimeFromYear (YearFromTime t) \<le> t \<and> (\<forall>y. TimeFromYear y \<le> t \<longrightarrow> y \<le> YearFromTime t)"
proof (intro conjI allI impI)
  show "TimeFromYear (YearFromTime t) \<le> t"
    using YearFromTime_bounds [of t] by (simp add: TimeFromYear_def Day_ge_iff [symmetric])
next
  fix y
  assume "TimeFromYear y \<le> t"
  then have le: "DayFromYear y \<le> Day t"
    by (simp add: TimeFromYear_def Day_ge_iff)
  show "y \<le> YearFromTime t"
  proof (rule ccontr)
    assume "\<not> y \<le> YearFromTime t"
    then have "YearFromTime t + 1 \<le> y"
      by simp
    then have "DayFromYear (YearFromTime t + 1) \<le> DayFromYear y"
      by (rule DayFromYear_mono)
    with le YearFromTime_bounds [of t] show False
      by simp
  qed
qed

lemma Day_of_day: "Day (d * msPerDay) = d"
  by (simp add: Day_def msPerDay_def)

lemma firstDayOfMonth_found:
  assumes "0 \<le> mn" and "mn \<le> 11"
  shows "YearFromTime (firstDayOfMonth ym mn * msPerDay) = ym
    \<and> MonthFromTime (firstDayOfMonth ym mn * msPerDay) = mn
    \<and> DateFromTime (firstDayOfMonth ym mn * msPerDay) = 1"
proof -
  let ?t = "firstDayOfMonth ym mn * msPerDay"
  let ?leap = "if DaysInYear ym = 365 then 0 else 1 :: int"
  have start: "0 \<le> monthStart mn ?leap" "monthStart mn ?leap < DaysInYear ym"
    using DaysInYear_cases [of ym] by (auto simp add: monthStart_def)
  have y: "YearFromTime ?t = ym"
    using start by (intro YearFromTime_unique) (simp_all add: Day_of_day firstDayOfMonth_def DayFromYear_Suc)
  have d: "DayWithinYear ?t = monthStart mn ?leap"
    unfolding DayWithinYear_def y Day_of_day by (simp add: firstDayOfMonth_def)
  have l: "InLeapYear ?t = ?leap"
    by (simp add: InLeapYear_def y)
  have cases: "mn = 0 \<or> mn = 1 \<or> mn = 2 \<or> mn = 3 \<or> mn = 4 \<or> mn = 5 \<or> mn = 6 \<or> mn = 7
      \<or> mn = 8 \<or> mn = 9 \<or> mn = 10 \<or> mn = 11"
    using assms by arith
  have m: "MonthFromTime ?t = mn"
    unfolding MonthFromTime_def d l Let_def using cases
    by (auto simp add: monthStart_def)
  have "DateFromTime ?t = 1"
    by (simp add: DateFromTime_monthStart m d l)
  with y m show ?thesis
    by simp
qed

section \<open>getNextNoon\<close>

subsection \<open>Days and noons\<close>

lemma noon_eq: "MakeTime 12 0 0 0 = noon"
  by (simp add: MakeTime_def noon_def)

lemma noon_range: "0 \<le> noon \<and> noon < msPerDay"
  by (simp add: noon_def msPerHour_def msPerDay_def)

lemma Day_MakeDate: "0 \<le> tm \<Longrightarrow> tm < msPerDay \<Longrightarrow> Day (MakeDate d tm) = d"
  unfolding Day_def MakeDate_def
  by (rule int_div_pos_eq [where r = tm]) (simp_all add: mult.commute)

lemma TimeWithinDay_MakeDate: "0 \<le> tm \<Longrightarrow> tm < msPerDay \<Longrightarrow> TimeWithinDay (MakeDate d tm) = tm"
  unfolding TimeWithinDay_def MakeDate_def
  by (rule int_mod_pos_eq [where q = d]) (simp_all add: mult.commute)

lemma MakeDate_Day: "MakeDate (Day t) (TimeWithinDay t) = t"
  by (simp add: MakeDate_def Day_def TimeWithinDay_def)

lemma TimeWithinDay_range: "0 \<le> TimeWithinDay t \<and> TimeWithinDay t < msPerDay"
  by (simp add: TimeWithinDay_def msPerDay_def)

lemma Day_localNoon: "Day (localNoon tza now) = Day (LocalTime tza now)"
  using noon_range by (simp add: localNoon_def Day_MakeDate)

lemma TimeWithinDay_localNoon: "TimeWithinDay (localNoon tza now) = noon"
  using noon_range by (simp add: localNoon_def TimeWithinDay_MakeDate)

lemma localNoon_same_day:
  "Day (LocalTime tza clock2) = Day (LocalTime tza now) \<Longrightarrow> localNoon tza clock2 = localNoon tza now"
  by (simp add: localNoon_def)

lemma localNoon_bounds:
  "localNoon tza now \<le> LocalTime tza now + noon \<and> LocalTime tza now < localNoon tza now + (msPerDay - noon)"
  using MakeDate_Day [of "LocalTime tza now"] TimeWithinDay_range [of "LocalTime tza now"]
  unfolding localNoon_def MakeDate_def by linarith

lemma setHours_noon: "setHours tza 12 0 0 0 (new_Date clock) = TimeClip (todayNoon tza clock)"
  by (simp add: setHours_def new_Date_def todayNoon_def localNoon_def noon_eq)

lemma before_noon_iff: "LocalTime tza now < localNoon tza now \<longleftrightarrow> TimeWithinDay (LocalTime tza now) < noon"
  using MakeDate_Day [of "LocalTime tza now"] unfolding localNoon_def MakeDate_def by linarith

lemma getNextNoon_unfold:
  "getNextNoon tza clock1 clock2 =
     (if date_le (TimeClip (todayNoon tza clock2)) (Some clock1)
      then setDate tza (number_add (getDate tza (TimeClip (todayNoon tza clock2))) 1)
             (TimeClip (todayNoon tza clock2))
      else TimeClip (todayNoon tza clock2))"
  by (simp add: getNextNoon_def Let_def setHours_noon getTime_def) (simp add: new_Date_def)

lemma date_le_TimeClip: "date_le (TimeClip t) (Some c) \<longleftrightarrow> \<bar>t\<bar> \<le> maxTime \<and> t \<le> c"
  by (simp add: date_le_def TimeClip_def)


subsection \<open>Before today's noon\<close>

text \<open>As long as the noon that \<^verbatim>\<open>setHours\<close> gives is ahead of \<^verbatim>\<open>now\<close>, it is the result.\<close>

lemma next_is_ahead:
  assumes "now < todayNoon tza clock2"
  shows "getNextNoon tza now clock2 = TimeClip (todayNoon tza clock2)"
proof -
  have "\<not> date_le (TimeClip (todayNoon tza clock2)) (Some now)"
    using assms by (simp add: date_le_TimeClip)
  then show ?thesis
    by (simp add: getNextNoon_unfold)
qed

text \<open>
  The current time against today's noon, read on the local wall clock: the time of day
  that the clock shows now is compared with 12:00:00.000 after it has been moved by the
  change of the offset between now and noon. Without such a change the current time is
  before today's noon exactly when the wall clock shows a time before 12:00:00.000.
\<close>

lemma before_todayNoon_iff:
  "now < todayNoon tza now \<longleftrightarrow>
     TimeWithinDay (LocalTime tza now) + (tza (localNoon tza now) False - tza now True) < noon"
  using MakeDate_Day [of "LocalTime tza now"]
  unfolding todayNoon_def UTC_def localNoon_def MakeDate_def LocalTime_def by linarith

lemma before_todayNoon_on_the_clock:
  assumes "tza (localNoon tza now) False = tza now True"
  shows "now < todayNoon tza now \<longleftrightarrow> TimeWithinDay (LocalTime tza now) < noon"
  using assms by (simp add: before_todayNoon_iff)


subsection \<open>From today's noon on\<close>

text \<open>
  \<^verbatim>\<open>next.setDate(next.getDate() + 1)\<close> moves a Date by one day of the local calendar and
  keeps its local time of day.
\<close>

lemma setDate_next_day:
  "setDate tza (number_add (getDate tza (Some t)) 1) (Some t) =
    TimeClip (UTC tza (MakeDate (Day (LocalTime tza t) + 1) (TimeWithinDay (LocalTime tza t))))"
  by (simp add: setDate_def getDate_def number_add_def MakeDay_of_time Let_def)

text \<open>From today's noon, if the local clock shows 12:00 then, it leads to tomorrow's noon.\<close>

lemma setDate_todayNoon:
  assumes "LocalTime tza (todayNoon tza now) = localNoon tza now"
  shows "setDate tza (number_add (getDate tza (Some (todayNoon tza now))) 1)
      (Some (todayNoon tza now)) = TimeClip (tomorrowNoon tza now)"
  by (simp add: setDate_next_day assms Day_localNoon TimeWithinDay_localNoon tomorrowNoon_def
      localNoonTomorrow_def)

lemma next_is_reached:
  assumes "todayNoon tza clock2 \<le> now" and "\<bar>todayNoon tza clock2\<bar> \<le> maxTime"
  shows "getNextNoon tza now clock2 =
    setDate tza (number_add (getDate tza (Some (todayNoon tza clock2))) 1)
      (Some (todayNoon tza clock2))"
proof -
  have "TimeClip (todayNoon tza clock2) = Some (todayNoon tza clock2)"
    using assms(2) by (simp add: TimeClip_def)
  moreover have "date_le (TimeClip (todayNoon tza clock2)) (Some now)"
    using assms by (simp add: date_le_TimeClip)
  ultimately show ?thesis
    by (simp add: getNextNoon_unfold)
qed

text \<open>
  The second reading of the clock may already fall on the next local day, when midnight
  passes between the two readings. Then \<^verbatim>\<open>setHours\<close> gives tomorrow's noon at once.
\<close>

lemma next_after_midnight:
  assumes day: "Day (LocalTime tza clock2) = Day (LocalTime tza now) + 1"
    and ahead: "now < tomorrowNoon tza now"
  shows "getNextNoon tza now clock2 = TimeClip (tomorrowNoon tza now)"
proof -
  have same: "todayNoon tza clock2 = tomorrowNoon tza now"
    using day by (simp add: todayNoon_def localNoon_def tomorrowNoon_def localNoonTomorrow_def)
  with ahead have "now < todayNoon tza clock2"
    by simp
  then have "getNextNoon tza now clock2 = TimeClip (todayNoon tza clock2)"
    by (rule next_is_ahead)
  then show ?thesis
    by (simp add: same)
qed


subsection \<open>Concrete readings of the clock\<close>

text \<open>
  The instants used below, in milliseconds since the epoch. In New York: 1793462400000
  is 2026-10-31T16:00:00Z (12:00 local time), 1793464200000 is half an hour later,
  1793505599999 is the last millisecond of 2026-10-31 on the local clock, 1793507400000
  is 2026-11-01T04:30:00Z (00:30 local time, before the end of daylight saving time on
  that morning), and 1793552400000 is 2026-11-01T17:00:00Z (12:00 local time, after it).
  In Santiago: 1775359800000 is 2026-04-05T03:30:00Z (23:30 local time on 2026-04-04,
  after the clock has gone back), and 1775404800000 is 2026-04-05T16:00:00Z (12:00 local
  time). In Seoul, nine hours ahead of UTC all year: 1793664000000 and 1793678400000
  are 09:00 and 13:00 on 2026-11-03, 1793674800000 and 1793761200000 are 12:00 on that
  day and on the next.
\<close>

lemmas clock_defs =
  Day_def TimeWithinDay_def LocalTime_def UTC_def MakeDate_def TimeClip_def noon_def localNoon_def
  todayNoon_def localNoonTomorrow_def tomorrowNoon_def withinRange_def
  msPerDay_def msPerHour_def maxTime_def


text \<open>
  The examples of the specification, in Seoul: at 09:00 the next noon is today's, at
  13:00 it is tomorrow's.
\<close>

lemma example_morning:
  "getNextNoon (fixedZone (9 * msPerHour)) 1793664000000 1793664000000 = Some 1793674800000"
  by code_simp

lemma example_afternoon:
  "getNextNoon (fixedZone (9 * msPerHour)) 1793678400000 1793678400000 = Some 1793761200000"
  by code_simp

text \<open>
  The next day may lie in the next month or year: from 13:00 on 2026-12-31 to 12:00 on
  2027-01-01, and from 13:00 on 2028-02-28 to 12:00 on 2028-02-29.
\<close>

lemma example_year_end:
  "getNextNoon (fixedZone (9 * msPerHour)) 1798689600000 1798689600000 = Some 1798772400000
   \<and> YearFromTime 1798772400000 = 2027 \<and> MonthFromTime 1798772400000 = 0
   \<and> DateFromTime 1798772400000 = 1"
  by code_simp

lemma example_leap_day:
  "getNextNoon (fixedZone (9 * msPerHour)) 1835323200000 1835323200000 = Some 1835406000000
   \<and> YearFromTime 1835406000000 = 2028 \<and> MonthFromTime 1835406000000 = 1
   \<and> DateFromTime 1835406000000 = 29"
  by code_simp

text \<open>Midnight between the two readings of the clock, in New York.\<close>

lemma example_midnight:
  "getNextNoon newYork2026 1793505599999 1793505600000 = Some 1793552400000"
  by code_simp


subsection \<open>The claims about getNextNoon\<close>

text \<open>
  Claim C1. For every current time strictly before today's local noon, \<^verbatim>\<open>getNextNoon\<close>
  returns the time value of today's local noon. The current time is the first reading
  of the clock, today's local noon is 12:00:00.000 on the local calendar day of that
  reading, and the second reading is taken on the same local day. By lemma
  \<open>before_todayNoon_on_the_clock\<close> the current time is before today's noon when the
  wall clock shows a time before 12:00:00.000; the theorem also covers the days on
  which the offset of the zone changes, as the morning of the witness does: 00:30 in
  New York on 2026-11-01, an hour and a half before daylight saving time ends.
\<close>

theorem getNextNoon_before_noon:
  assumes before: "now < todayNoon tza now"
    and day: "Day (LocalTime tza clock2) = Day (LocalTime tza now)"
  shows "getNextNoon tza now clock2 = TimeClip (todayNoon tza now)"
proof -
  have same: "todayNoon tza clock2 = todayNoon tza now"
    using localNoon_same_day [OF day] by (simp add: todayNoon_def)
  with before have "now < todayNoon tza clock2"
    by simp
  then have "getNextNoon tza now clock2 = TimeClip (todayNoon tza clock2)"
    by (rule next_is_ahead)
  then show ?thesis
    by (simp add: same)
qed

theorem getNextNoon_before_noon_witness:
  "1793507400000 < todayNoon newYork2026 1793507400000
   \<and> Day (LocalTime newYork2026 1793507400001) = Day (LocalTime newYork2026 1793507400000)
   \<and> TimeWithinDay (LocalTime newYork2026 1793507400000) = 1800000
   \<and> newYork2026 (localNoon newYork2026 1793507400000) False \<noteq> newYork2026 1793507400000 True
   \<and> getNextNoon newYork2026 1793507400000 1793507400001 = Some 1793552400000"
proof -
  have before: "1793507400000 < todayNoon newYork2026 1793507400000"
    by (simp add: clock_defs newYork2026_def)
  have day: "Day (LocalTime newYork2026 1793507400001) = Day (LocalTime newYork2026 1793507400000)"
    by (simp add: clock_defs newYork2026_def)
  have clock: "TimeWithinDay (LocalTime newYork2026 1793507400000) = 1800000"
    by (simp add: clock_defs newYork2026_def)
  have change: "newYork2026 (localNoon newYork2026 1793507400000) False
      \<noteq> newYork2026 1793507400000 True"
    by (simp add: clock_defs newYork2026_def)
  have "TimeClip (todayNoon newYork2026 1793507400000) = Some 1793552400000"
    by (simp add: clock_defs newYork2026_def)
  with getNextNoon_before_noon [OF before day] before day clock change show ?thesis
    by simp
qed



text \<open>
  Claim C9. \<^verbatim>\<open>getNextNoon\<close> is determined by the current time: in one time zone, two
  evaluations with the same current time return the same time value, whatever their
  second readings of the clock are within one local day.
\<close>

theorem getNextNoon_deterministic:
  assumes "Day (LocalTime tza clock2) = Day (LocalTime tza clock2')"
  shows "getNextNoon tza now clock2 = getNextNoon tza now clock2'"
proof -
  have "todayNoon tza clock2 = todayNoon tza clock2'"
    using assms by (simp add: todayNoon_def localNoon_def)
  then show ?thesis
    by (simp add: getNextNoon_unfold)
qed

theorem getNextNoon_deterministic_witness:
  "Day (LocalTime (fixedZone (9 * msPerHour)) 1793462400000)
     = Day (LocalTime (fixedZone (9 * msPerHour)) 1793462400007)
   \<and> getNextNoon (fixedZone (9 * msPerHour)) 1793462400000 1793462400000
     = getNextNoon (fixedZone (9 * msPerHour)) 1793462400000 1793462400007"
proof -
  have day: "Day (LocalTime (fixedZone (9 * msPerHour)) 1793462400000)
      = Day (LocalTime (fixedZone (9 * msPerHour)) 1793462400007)"
    by (simp add: clock_defs fixedZone_def)
  from getNextNoon_deterministic [OF day] day show ?thesis
    by simp
qed

text \<open>
  Claim C8, as stated, fails. It says that for every current time the returned time
  value is at most 24 hours in the future. In New York at 12:30 on 2026-10-31, the day
  before daylight saving time ends, \<^verbatim>\<open>getNextNoon\<close> returns noon of 2026-11-01, which is 24
  hours and 30 minutes later.
\<close>

theorem next_noon_25_hours_counterexample:
  "getNextNoon newYork2026 1793464200000 1793464200000 = Some 1793552400000
   \<and> 1793464200000 + 24 * msPerHour < 1793552400000"
  by code_simp

text \<open>
  Claim C8, amended. For every current time, the time value returned by \<^verbatim>\<open>getNextNoon\<close>
  is strictly greater than the current time and its local time of day is exactly
  12:00:00.000. Before today's noon it lies at most 24 hours in the future; from
  today's noon on it lies at most 24 hours in the future, or, where the offset of the
  zone at tomorrow's local noon is below the current offset, at most 24 hours plus that
  difference.

  This holds where today's and tomorrow's noon are time values of the host and the
  second reading of the clock is taken on the same local day, in a zone of this kind:
  the local clock shows 12:00:00.000 of today at today's noon and 12:00:00.000 at
  tomorrow's; once today's noon is reached the local clock shows noon or later; the
  current offset is at most 12 hours above the offset of today's noon, and the offset
  of tomorrow's noon is less than 12 hours above the current one.
\<close>

theorem next_noon_within_a_day:
  assumes day: "Day (LocalTime tza clock2) = Day (LocalTime tza now)"
    and range: "withinRange tza now"
    and today: "LocalTime tza (todayNoon tza now) = localNoon tza now"
    and tomorrow: "TimeWithinDay (LocalTime tza (tomorrowNoon tza now)) = noon"
    and order: "todayNoon tza now \<le> now \<longrightarrow> localNoon tza now \<le> LocalTime tza now"
    and drop: "tza now True - tza (localNoon tza now) False \<le> 12 * msPerHour"
    and rise: "tza (localNoonTomorrow tza now) False - tza now True < 12 * msPerHour"
  shows "\<exists>r. getNextNoon tza now clock2 = Some r \<and> now < r
    \<and> r \<le> now + 24 * msPerHour
          + (if now < todayNoon tza now then 0
             else max 0 (tza now True - tza (localNoonTomorrow tza now) False))
    \<and> TimeWithinDay (LocalTime tza r) = noon"
proof -
  let ?o = "tza now True"
  let ?oN = "tza (localNoon tza now) False"
  let ?oM = "tza (localNoonTomorrow tza now) False"
  have same: "todayNoon tza clock2 = todayNoon tza now"
    using localNoon_same_day [OF day] by (simp add: todayNoon_def)
  have uN: "todayNoon tza now = localNoon tza now - ?oN"
    by (simp add: todayNoon_def UTC_def)
  have uM: "tomorrowNoon tza now = localNoon tza now + msPerDay - ?oM"
    by (simp add: tomorrowNoon_def localNoonTomorrow_def UTC_def localNoon_def MakeDate_def
        algebra_simps)
  have local: "localNoon tza now \<le> now + ?o + noon"
    "now + ?o < localNoon tza now + (msPerDay - noon)"
    using localNoon_bounds [of tza now] by (simp_all add: LocalTime_def)
  show ?thesis
  proof (cases "now < todayNoon tza now")
    case True
    let ?r = "todayNoon tza now"
    have "getNextNoon tza now clock2 = TimeClip (todayNoon tza clock2)"
      using True by (intro next_is_ahead) (simp add: same)
    then have "getNextNoon tza now clock2 = Some ?r"
      using range by (simp add: same TimeClip_def withinRange_def)
    moreover have "?r \<le> now + 24 * msPerHour"
      using local(1) drop unfolding uN noon_def msPerHour_def by linarith
    moreover have "TimeWithinDay (LocalTime tza ?r) = noon"
      by (simp add: today TimeWithinDay_localNoon)
    ultimately show ?thesis
      using True by auto
  next
    case False
    let ?r = "tomorrowNoon tza now"
    have "getNextNoon tza now clock2 =
        setDate tza (number_add (getDate tza (Some (todayNoon tza clock2))) 1)
          (Some (todayNoon tza clock2))"
      using False range by (intro next_is_reached) (simp_all add: same withinRange_def)
    also have "\<dots> = TimeClip ?r"
      unfolding same using today by (rule setDate_todayNoon)
    finally have "getNextNoon tza now clock2 = Some ?r"
      using range by (simp add: TimeClip_def withinRange_def)
    moreover have "now < ?r"
      using local(2) rise unfolding uM noon_def msPerHour_def msPerDay_def by linarith
    moreover have "localNoon tza now \<le> now + ?o"
      using False order by (simp add: LocalTime_def)
    then have "?r \<le> now + 24 * msPerHour + max 0 (?o - ?oM)"
      unfolding uM msPerHour_def msPerDay_def by linarith
    ultimately show ?thesis
      using False tomorrow by auto
  qed
qed

text \<open>
  Three readings of the clock. In New York at 00:30 on 2026-11-01, before daylight
  saving time ends on that morning, the bound is 24 hours. In New York at 12:30 on
  2026-10-31, where the claim as stated fails, the offset at tomorrow's noon is an hour
  below the current one and the bound is 25 hours. In Santiago at 23:30 on 2026-04-04,
  after the clock has gone back, the bound is 24 hours again.
\<close>

theorem next_noon_within_a_day_witness:
  "Day (LocalTime newYork2026 1793507400001) = Day (LocalTime newYork2026 1793507400000)
   \<and> withinRange newYork2026 1793507400000
   \<and> LocalTime newYork2026 (todayNoon newYork2026 1793507400000) = localNoon newYork2026 1793507400000
   \<and> TimeWithinDay (LocalTime newYork2026 (tomorrowNoon newYork2026 1793507400000)) = noon
   \<and> 1793507400000 < todayNoon newYork2026 1793507400000
   \<and> newYork2026 1793507400000 True - newYork2026 (localNoon newYork2026 1793507400000) False \<le> 12 * msPerHour
   \<and> newYork2026 (localNoonTomorrow newYork2026 1793507400000) False - newYork2026 1793507400000 True < 12 * msPerHour
   \<and> (\<exists>r. getNextNoon newYork2026 1793507400000 1793507400001 = Some r
        \<and> 1793507400000 < r \<and> r \<le> 1793507400000 + 24 * msPerHour
        \<and> TimeWithinDay (LocalTime newYork2026 r) = noon)
   \<and> Day (LocalTime newYork2026 1793464200001) = Day (LocalTime newYork2026 1793464200000)
   \<and> withinRange newYork2026 1793464200000
   \<and> LocalTime newYork2026 (todayNoon newYork2026 1793464200000) = localNoon newYork2026 1793464200000
   \<and> TimeWithinDay (LocalTime newYork2026 (tomorrowNoon newYork2026 1793464200000)) = noon
   \<and> localNoon newYork2026 1793464200000 \<le> LocalTime newYork2026 1793464200000
   \<and> newYork2026 1793464200000 True - newYork2026 (localNoon newYork2026 1793464200000) False \<le> 12 * msPerHour
   \<and> newYork2026 (localNoonTomorrow newYork2026 1793464200000) False - newYork2026 1793464200000 True < 12 * msPerHour
   \<and> (\<exists>r. getNextNoon newYork2026 1793464200000 1793464200001 = Some r
        \<and> 1793464200000 < r \<and> r \<le> 1793464200000 + 25 * msPerHour
        \<and> TimeWithinDay (LocalTime newYork2026 r) = noon)
   \<and> Day (LocalTime santiago2026 1775359800001) = Day (LocalTime santiago2026 1775359800000)
   \<and> withinRange santiago2026 1775359800000
   \<and> LocalTime santiago2026 (todayNoon santiago2026 1775359800000) = localNoon santiago2026 1775359800000
   \<and> TimeWithinDay (LocalTime santiago2026 (tomorrowNoon santiago2026 1775359800000)) = noon
   \<and> localNoon santiago2026 1775359800000 \<le> LocalTime santiago2026 1775359800000
   \<and> santiago2026 1775359800000 True - santiago2026 (localNoon santiago2026 1775359800000) False \<le> 12 * msPerHour
   \<and> santiago2026 (localNoonTomorrow santiago2026 1775359800000) False - santiago2026 1775359800000 True < 12 * msPerHour
   \<and> (\<exists>r. getNextNoon santiago2026 1775359800000 1775359800001 = Some r
        \<and> 1775359800000 < r \<and> r \<le> 1775359800000 + 24 * msPerHour
        \<and> TimeWithinDay (LocalTime santiago2026 r) = noon)"
proof -
  have day_a: "Day (LocalTime newYork2026 1793507400001) = Day (LocalTime newYork2026 1793507400000)"
    by (simp add: clock_defs newYork2026_def)
  have range_a: "withinRange newYork2026 1793507400000"
    by (simp add: clock_defs newYork2026_def)
  have today_a: "LocalTime newYork2026 (todayNoon newYork2026 1793507400000) = localNoon newYork2026 1793507400000"
    by (simp add: clock_defs newYork2026_def)
  have tomorrow_a: "TimeWithinDay (LocalTime newYork2026 (tomorrowNoon newYork2026 1793507400000)) = noon"
    by (simp add: clock_defs newYork2026_def)
  have clock_a: "1793507400000 < todayNoon newYork2026 1793507400000"
    by (simp add: clock_defs newYork2026_def)
  then have order_a: "todayNoon newYork2026 1793507400000 \<le> 1793507400000 \<longrightarrow> localNoon newYork2026 1793507400000 \<le> LocalTime newYork2026 1793507400000"
    by simp
  have drop_a: "newYork2026 1793507400000 True - newYork2026 (localNoon newYork2026 1793507400000) False \<le> 12 * msPerHour"
    by (simp add: clock_defs newYork2026_def)
  have rise_a: "newYork2026 (localNoonTomorrow newYork2026 1793507400000) False - newYork2026 1793507400000 True < 12 * msPerHour"
    by (simp add: clock_defs newYork2026_def)
  have bound_a: "24 * msPerHour
      + (if 1793507400000 < todayNoon newYork2026 1793507400000 then 0
         else max 0 (newYork2026 1793507400000 True - newYork2026 (localNoonTomorrow newYork2026 1793507400000) False)) = 24 * msPerHour"
    by (simp add: clock_defs newYork2026_def)
  have result_a: "\<exists>r. getNextNoon newYork2026 1793507400000 1793507400001 = Some r
        \<and> 1793507400000 < r \<and> r \<le> 1793507400000 + 24 * msPerHour
        \<and> TimeWithinDay (LocalTime newYork2026 r) = noon"
    using next_noon_within_a_day [OF day_a range_a today_a tomorrow_a order_a drop_a rise_a] bound_a
    by (simp add: algebra_simps)
  have day_b: "Day (LocalTime newYork2026 1793464200001) = Day (LocalTime newYork2026 1793464200000)"
    by (simp add: clock_defs newYork2026_def)
  have range_b: "withinRange newYork2026 1793464200000"
    by (simp add: clock_defs newYork2026_def)
  have today_b: "LocalTime newYork2026 (todayNoon newYork2026 1793464200000) = localNoon newYork2026 1793464200000"
    by (simp add: clock_defs newYork2026_def)
  have tomorrow_b: "TimeWithinDay (LocalTime newYork2026 (tomorrowNoon newYork2026 1793464200000)) = noon"
    by (simp add: clock_defs newYork2026_def)
  have clock_b: "localNoon newYork2026 1793464200000 \<le> LocalTime newYork2026 1793464200000"
    by (simp add: clock_defs newYork2026_def)
  then have order_b: "todayNoon newYork2026 1793464200000 \<le> 1793464200000 \<longrightarrow> localNoon newYork2026 1793464200000 \<le> LocalTime newYork2026 1793464200000"
    by simp
  have drop_b: "newYork2026 1793464200000 True - newYork2026 (localNoon newYork2026 1793464200000) False \<le> 12 * msPerHour"
    by (simp add: clock_defs newYork2026_def)
  have rise_b: "newYork2026 (localNoonTomorrow newYork2026 1793464200000) False - newYork2026 1793464200000 True < 12 * msPerHour"
    by (simp add: clock_defs newYork2026_def)
  have bound_b: "24 * msPerHour
      + (if 1793464200000 < todayNoon newYork2026 1793464200000 then 0
         else max 0 (newYork2026 1793464200000 True - newYork2026 (localNoonTomorrow newYork2026 1793464200000) False)) = 25 * msPerHour"
    by (simp add: clock_defs newYork2026_def)
  have result_b: "\<exists>r. getNextNoon newYork2026 1793464200000 1793464200001 = Some r
        \<and> 1793464200000 < r \<and> r \<le> 1793464200000 + 25 * msPerHour
        \<and> TimeWithinDay (LocalTime newYork2026 r) = noon"
    using next_noon_within_a_day [OF day_b range_b today_b tomorrow_b order_b drop_b rise_b] bound_b
    by (simp add: algebra_simps)
  have day_c: "Day (LocalTime santiago2026 1775359800001) = Day (LocalTime santiago2026 1775359800000)"
    by (simp add: clock_defs santiago2026_def)
  have range_c: "withinRange santiago2026 1775359800000"
    by (simp add: clock_defs santiago2026_def)
  have today_c: "LocalTime santiago2026 (todayNoon santiago2026 1775359800000) = localNoon santiago2026 1775359800000"
    by (simp add: clock_defs santiago2026_def)
  have tomorrow_c: "TimeWithinDay (LocalTime santiago2026 (tomorrowNoon santiago2026 1775359800000)) = noon"
    by (simp add: clock_defs santiago2026_def)
  have clock_c: "localNoon santiago2026 1775359800000 \<le> LocalTime santiago2026 1775359800000"
    by (simp add: clock_defs santiago2026_def)
  then have order_c: "todayNoon santiago2026 1775359800000 \<le> 1775359800000 \<longrightarrow> localNoon santiago2026 1775359800000 \<le> LocalTime santiago2026 1775359800000"
    by simp
  have drop_c: "santiago2026 1775359800000 True - santiago2026 (localNoon santiago2026 1775359800000) False \<le> 12 * msPerHour"
    by (simp add: clock_defs santiago2026_def)
  have rise_c: "santiago2026 (localNoonTomorrow santiago2026 1775359800000) False - santiago2026 1775359800000 True < 12 * msPerHour"
    by (simp add: clock_defs santiago2026_def)
  have bound_c: "24 * msPerHour
      + (if 1775359800000 < todayNoon santiago2026 1775359800000 then 0
         else max 0 (santiago2026 1775359800000 True - santiago2026 (localNoonTomorrow santiago2026 1775359800000) False)) = 24 * msPerHour"
    by (simp add: clock_defs santiago2026_def)
  have result_c: "\<exists>r. getNextNoon santiago2026 1775359800000 1775359800001 = Some r
        \<and> 1775359800000 < r \<and> r \<le> 1775359800000 + 24 * msPerHour
        \<and> TimeWithinDay (LocalTime santiago2026 r) = noon"
    using next_noon_within_a_day [OF day_c range_c today_c tomorrow_c order_c drop_c rise_c] bound_c
    by (simp add: algebra_simps)
  from day_a range_a today_a tomorrow_a clock_a drop_a rise_a result_a
    day_b range_b today_b tomorrow_b clock_b drop_b rise_b result_b
    day_c range_c today_c tomorrow_c clock_c drop_c rise_c result_c
  show ?thesis
    by blast
qed


section \<open>The installer\<close>

subsection \<open>What one run of the listener leaves in the host\<close>

lemma onInstalled_rules:
  "dynamicRules (onInstalled tza clock1 clock2 b) =
     [r \<leftarrow> dynamicRules b. rule_id r \<noteq> RULE_ID] @ [headerRule]"
  by (simp add: onInstalled_def updateDynamicRules_def ruleUpdate_def setupDailyAlarm_def
      alarms_create_def)

lemma onInstalled_alarms:
  "alarms (onInstalled tza clock1 clock2 b) =
     [(k, i) \<leftarrow> alarms b. k \<noteq> ''dailyCheck''] @
     [(''dailyCheck'', \<lparr>when' = getNextNoon tza clock1 clock2, periodInMinutes = 1440\<rparr>)]"
  by (simp add: onInstalled_def updateDynamicRules_def setupDailyAlarm_def alarms_create_def)

lemma onInstalled_tabs: "tabs (onInstalled tza clock1 clock2 b) = tabs b"
  by (simp add: onInstalled_def updateDynamicRules_def setupDailyAlarm_def alarms_create_def)

lemma rule_id_headerRule: "rule_id headerRule = RULE_ID"
  by (simp add: headerRule_def)

lemma onInstalled_one_rule:
  "[r \<leftarrow> dynamicRules (onInstalled tza clock1 clock2 b). rule_id r = RULE_ID] = [headerRule]"
  by (simp add: onInstalled_rules rule_id_headerRule)

lemma filter_same_name:
  "[(k, i) \<leftarrow> [(k, i) \<leftarrow> xs. k \<noteq> n]. k = n] = []"
  by (induction xs) auto

lemma filter_other_names:
  "[(k, i) \<leftarrow> [(k, i) \<leftarrow> xs. k \<noteq> n]. k \<noteq> n] = [(k, i) \<leftarrow> xs. k \<noteq> n]"
  by (induction xs) auto

subsection \<open>The alarm\<close>

text \<open>
  Claim C6. On every install or update event the installer registers exactly one alarm
  whose name is \<^verbatim>\<open>dailyCheck\<close>, whose first-fire time is the value computed by
  \<^verbatim>\<open>getNextNoon\<close> and whose repeat period is 1440 minutes: after the listener has run,
  the alarms of that name are this one alarm, and the alarms of every other name are
  those that were there before.
\<close>

theorem onInstalled_registers_dailyCheck:
  "[(k, i) \<leftarrow> alarms (onInstalled tza clock1 clock2 b). k = ''dailyCheck''] =
     [(''dailyCheck'', \<lparr>when' = getNextNoon tza clock1 clock2, periodInMinutes = 1440\<rparr>)]
   \<and> [(k, i) \<leftarrow> alarms (onInstalled tza clock1 clock2 b). k \<noteq> ''dailyCheck''] =
     [(k, i) \<leftarrow> alarms b. k \<noteq> ''dailyCheck'']"
  unfolding onInstalled_alarms filter_append filter_other_names filter_same_name by simp

subsection \<open>The header rule\<close>

text \<open>
  Claim C3. After every run of the installer exactly one rule with the fixed identifier
  is in the dynamic rule set, and it is the header rule: this holds after any sequence
  of one or more runs, from any rule set, so running the installer twice never yields
  two rules with that identifier.
\<close>

theorem installs_one_header_rule:
  "[r \<leftarrow> dynamicRules (installs tza (e # events) b). rule_id r = RULE_ID] = [headerRule]"
proof (induction events arbitrary: e b)
  case Nil
  show ?case
    by (cases e) (simp add: onInstalled_one_rule)
next
  case (Cons e' events)
  show ?case
    using Cons.IH [of e'] by (cases e) simp
qed

text \<open>
  The removal is what keeps the rule single: the same update without its
  \<^verbatim>\<open>removeRuleIds\<close>, made after a run of the installer, leaves the rule twice.
\<close>

lemma without_removal_two_rules:
  "[r \<leftarrow> dynamicRules (updateDynamicRules (ruleUpdate\<lparr>removeRuleIds := []\<rparr>)
        (onInstalled tza clock1 clock2 b)). rule_id r = RULE_ID] = [headerRule, headerRule]"
  by (simp add: updateDynamicRules_def ruleUpdate_def onInstalled_rules rule_id_headerRule)

text \<open>
  Claim C10. The rule update of the installer touches only the rule with identifier 1:
  its removal list is exactly \<open>[1]\<close>, every rule it adds has identifier 1, and the rules
  with any other identifier are after the run what they were before it.
\<close>

theorem onInstalled_touches_only_RULE_ID:
  "removeRuleIds ruleUpdate = [1]
   \<and> map rule_id (addRules ruleUpdate) = [1]
   \<and> [r \<leftarrow> dynamicRules (onInstalled tza clock1 clock2 b). rule_id r \<noteq> 1] =
     [r \<leftarrow> dynamicRules b. rule_id r \<noteq> 1]"
  by (simp add: onInstalled_rules ruleUpdate_def rule_id_headerRule RULE_ID_def)

subsection \<open>What the header rule does to a request\<close>

lemma startsWith_iff: "startsWith p s \<longleftrightarrow> (\<exists>post. s = p @ post)"
  by (induction p s rule: startsWith.induct) auto

lemma contains_iff: "contains p s \<longleftrightarrow> (\<exists>pre post. s = pre @ p @ post)"
proof (induction s)
  case Nil
  show ?case by auto
next
  case (Cons c cs)
  show ?case
  proof
    assume "contains p (c # cs)"
    then consider "startsWith p (c # cs)" | "contains p cs"
      by auto
    then show "\<exists>pre post. c # cs = pre @ p @ post"
    proof cases
      case 1
      then obtain post where "c # cs = [] @ p @ post"
        by (auto simp add: startsWith_iff)
      then show ?thesis by blast
    next
      case 2
      with Cons.IH obtain pre post where "cs = pre @ p @ post"
        by auto
      then have "c # cs = (c # pre) @ p @ post"
        by simp
      then show ?thesis by blast
    qed
  next
    assume "\<exists>pre post. c # cs = pre @ p @ post"
    then obtain pre post where eq: "c # cs = pre @ p @ post"
      by auto
    show "contains p (c # cs)"
    proof (cases pre)
      case Nil
      with eq have "startsWith p (c # cs)"
        by (auto simp add: startsWith_iff)
      then show ?thesis by simp
    next
      case (Cons a pre')
      with eq have "cs = pre' @ p @ post"
        by simp
      with Cons.IH have "contains p cs"
        by auto
      then show ?thesis by simp
    qed
  qed
qed

lemma map_of_set_header:
  "map_of ([(k, v) \<leftarrow> hs. k \<noteq> h] @ [(h, x)]) h' = (if h' = h then Some x else map_of hs h')"
  by (induction hs) auto

lemma applyRule_headerRule:
  "applyRule headerRule req =
     (if conditionHolds (condition headerRule) req
      then req\<lparr>request_headers :=
             [(k, v) \<leftarrow> request_headers req. k \<noteq> ''User-Agent''] @ [(''User-Agent'', MOBILE_USER_AGENT)]\<rparr>
      else req)"
  by (simp add: applyRule_def headerRule_def)

text \<open>
  Claim C7. The installer adds a single rule. Its condition holds for exactly the
  requests whose URL contains \<^verbatim>\<open>m.search.naver.com\<close> and whose resource type is one of
  \<^verbatim>\<open>xmlhttprequest\<close>, \<^verbatim>\<open>sub_frame\<close> and \<^verbatim>\<open>main_frame\<close>; on such a request its action sets the
  header \<^verbatim>\<open>User-Agent\<close> to the User-Agent string of Safari on an iPhone that the script
  fixes, and leaves every other header as it was; any other request it leaves unchanged.
\<close>

theorem headerRule_condition_and_action:
  "addRules ruleUpdate = [headerRule]
   \<and> (conditionHolds (condition headerRule) req \<longleftrightarrow>
        (\<exists>pre post. request_url req = pre @ ''m.search.naver.com'' @ post)
        \<and> request_type req \<in> {xmlhttprequest, sub_frame, main_frame})
   \<and> (conditionHolds (condition headerRule) req \<longrightarrow>
        map_of (request_headers (applyRule headerRule req)) ''User-Agent'' =
          Some ''Mozilla/5.0 (iPhone; CPU iPhone OS 16_0 like Mac OS X) AppleWebKit/605.1.15 (KHTML, like Gecko) Version/16.0 Mobile/15E148 Safari/604.1''
        \<and> (\<forall>h. h \<noteq> ''User-Agent'' \<longrightarrow>
              map_of (request_headers (applyRule headerRule req)) h = map_of (request_headers req) h))
   \<and> (\<not> conditionHolds (condition headerRule) req \<longrightarrow> applyRule headerRule req = req)"
proof (intro conjI)
  show "addRules ruleUpdate = [headerRule]"
    by (simp add: ruleUpdate_def)
  show "conditionHolds (condition headerRule) req \<longleftrightarrow>
        (\<exists>pre post. request_url req = pre @ ''m.search.naver.com'' @ post)
        \<and> request_type req \<in> {xmlhttprequest, sub_frame, main_frame}"
    unfolding conditionHolds_def contains_iff by (auto simp add: headerRule_def)
  show "conditionHolds (condition headerRule) req \<longrightarrow>
        map_of (request_headers (applyRule headerRule req)) ''User-Agent'' =
          Some ''Mozilla/5.0 (iPhone; CPU iPhone OS 16_0 like Mac OS X) AppleWebKit/605.1.15 (KHTML, like Gecko) Version/16.0 Mobile/15E148 Safari/604.1''
        \<and> (\<forall>h. h \<noteq> ''User-Agent'' \<longrightarrow>
              map_of (request_headers (applyRule headerRule req)) h = map_of (request_headers req) h)"
    by (simp add: applyRule_headerRule map_of_set_header MOBILE_USER_AGENT_def del: map_of_append)
  show "\<not> conditionHolds (condition headerRule) req \<longrightarrow> applyRule headerRule req = req"
    by (simp add: applyRule_headerRule)
qed

theorem headerRule_condition_and_action_witness:
  "conditionHolds (condition headerRule)
     \<lparr>request_url = ''https://m.search.naver.com/search.naver?query=a'',
      request_type = xmlhttprequest,
      request_headers = [(''User-Agent'', ''Mozilla/5.0 (X11; Linux x86_64)''), (''Accept'', ''*/*'')]\<rparr>
   \<and> map_of (request_headers (applyRule headerRule
        \<lparr>request_url = ''https://m.search.naver.com/search.naver?query=a'',
         request_type = xmlhttprequest,
         request_headers = [(''User-Agent'', ''Mozilla/5.0 (X11; Linux x86_64)''), (''Accept'', ''*/*'')]\<rparr>))
       ''User-Agent'' =
         Some ''Mozilla/5.0 (iPhone; CPU iPhone OS 16_0 like Mac OS X) AppleWebKit/605.1.15 (KHTML, like Gecko) Version/16.0 Mobile/15E148 Safari/604.1''
   \<and> map_of (request_headers (applyRule headerRule
        \<lparr>request_url = ''https://m.search.naver.com/search.naver?query=a'',
         request_type = xmlhttprequest,
         request_headers = [(''User-Agent'', ''Mozilla/5.0 (X11; Linux x86_64)''), (''Accept'', ''*/*'')]\<rparr>))
       ''Accept'' = Some ''*/*''
   \<and> \<not> conditionHolds (condition headerRule)
        \<lparr>request_url = ''https://m.search.naver.com/search.naver?query=a'',
         request_type = image_resource,
         request_headers = [(''User-Agent'', ''Mozilla/5.0 (X11; Linux x86_64)'')]\<rparr>
   \<and> applyRule headerRule
        \<lparr>request_url = ''https://m.search.naver.com/search.naver?query=a'',
         request_type = image_resource,
         request_headers = [(''User-Agent'', ''Mozilla/5.0 (X11; Linux x86_64)'')]\<rparr>
       = \<lparr>request_url = ''https://m.search.naver.com/search.naver?query=a'',
          request_type = image_resource,
          request_headers = [(''User-Agent'', ''Mozilla/5.0 (X11; Linux x86_64)'')]\<rparr>"
proof -
  let ?xhr = "\<lparr>request_url = ''https://m.search.naver.com/search.naver?query=a'',
      request_type = xmlhttprequest,
      request_headers = [(''User-Agent'', ''Mozilla/5.0 (X11; Linux x86_64)''), (''Accept'', ''*/*'')]\<rparr>"
  let ?img = "\<lparr>request_url = ''https://m.search.naver.com/search.naver?query=a'',
      request_type = image_resource,
      request_headers = [(''User-Agent'', ''Mozilla/5.0 (X11; Linux x86_64)'')]\<rparr>"
  have yes: "conditionHolds (condition headerRule) ?xhr"
    by (simp add: conditionHolds_def headerRule_def)
  have no: "\<not> conditionHolds (condition headerRule) ?img"
    by (simp add: conditionHolds_def headerRule_def)
  show ?thesis
    using yes no headerRule_condition_and_action [of ?xhr] headerRule_condition_and_action [of ?img]
    by simp
qed


section \<open>The alarm handler\<close>

text \<open>
  Claim C4. For every alarm delivered to the handler, the handler opens a tab if and
  only if the name of the alarm is exactly \<^verbatim>\<open>dailyCheck\<close>; with any other name it leaves the
  host as it was, and in no case does it change the alarms or the rules.
\<close>

theorem onAlarm_opens_iff_dailyCheck:
  "(openedTabs b (onAlarm alarm b) \<noteq> [] \<longleftrightarrow> name alarm = ''dailyCheck'')
   \<and> (name alarm \<noteq> ''dailyCheck'' \<longrightarrow> onAlarm alarm b = b)
   \<and> alarms (onAlarm alarm b) = alarms b
   \<and> dynamicRules (onAlarm alarm b) = dynamicRules b"
  by (simp add: onAlarm_def tabs_create_def openedTabs_def)

theorem onAlarm_opens_iff_dailyCheck_witness:
  "name \<lparr>name = ''other''\<rparr> \<noteq> ''dailyCheck''
   \<and> onAlarm \<lparr>name = ''other''\<rparr> \<lparr>alarms = [], dynamicRules = [], tabs = []\<rparr>
     = \<lparr>alarms = [], dynamicRules = [], tabs = []\<rparr>
   \<and> name \<lparr>name = ''dailyCheck''\<rparr> = ''dailyCheck''
   \<and> openedTabs \<lparr>alarms = [], dynamicRules = [], tabs = []\<rparr>
        (onAlarm \<lparr>name = ''dailyCheck''\<rparr> \<lparr>alarms = [], dynamicRules = [], tabs = []\<rparr>) \<noteq> []"
  using onAlarm_opens_iff_dailyCheck [of "\<lparr>alarms = [], dynamicRules = [], tabs = []\<rparr>" "\<lparr>name = ''other''\<rparr>"]
    onAlarm_opens_iff_dailyCheck [of "\<lparr>alarms = [], dynamicRules = [], tabs = []\<rparr>" "\<lparr>name = ''dailyCheck''\<rparr>"]
  by simp

lemma auto_true: "(''auto'', ''true'') \<in> set (queryParameters ''dashboard.html?auto=true'')"
  by (simp add: queryParameters_def)

text \<open>
  Claim C5. Whenever the handler opens a tab, the URL of the tab is exactly
  \<^verbatim>\<open>dashboard.html?auto=true\<close>, whose query holds the parameter \<^verbatim>\<open>auto=true\<close>; the tabs that
  were open stay, and a firing with the name \<^verbatim>\<open>dailyCheck\<close> opens exactly one tab.
\<close>

theorem onAlarm_opens_dashboard:
  "tabs (onAlarm alarm b) = tabs b @ openedTabs b (onAlarm alarm b)
   \<and> (\<forall>p \<in> set (openedTabs b (onAlarm alarm b)).
         url p = ''dashboard.html?auto=true'' \<and> (''auto'', ''true'') \<in> set (queryParameters (url p)))
   \<and> (name alarm = ''dailyCheck'' \<longrightarrow> length (openedTabs b (onAlarm alarm b)) = 1)"
  using auto_true by (simp add: onAlarm_def tabs_create_def openedTabs_def)

theorem onAlarm_opens_dashboard_witness:
  "name \<lparr>name = ''dailyCheck''\<rparr> = ''dailyCheck''
   \<and> openedTabs \<lparr>alarms = [], dynamicRules = [], tabs = [\<lparr>url = ''about:blank''\<rparr>]\<rparr>
     (onAlarm \<lparr>name = ''dailyCheck''\<rparr> \<lparr>alarms = [], dynamicRules = [], tabs = [\<lparr>url = ''about:blank''\<rparr>]\<rparr>)
     = [\<lparr>url = ''dashboard.html?auto=true''\<rparr>]
   \<and> tabs (onAlarm \<lparr>name = ''dailyCheck''\<rparr> \<lparr>alarms = [], dynamicRules = [], tabs = [\<lparr>url = ''about:blank''\<rparr>]\<rparr>)
     = [\<lparr>url = ''about:blank''\<rparr>, \<lparr>url = ''dashboard.html?auto=true''\<rparr>]
   \<and> length (openedTabs \<lparr>alarms = [], dynamicRules = [], tabs = [\<lparr>url = ''about:blank''\<rparr>]\<rparr>
       (onAlarm \<lparr>name = ''dailyCheck''\<rparr> \<lparr>alarms = [], dynamicRules = [], tabs = [\<lparr>url = ''about:blank''\<rparr>]\<rparr>)) = 1"
  using onAlarm_opens_dashboard
    [of "\<lparr>name = ''dailyCheck''\<rparr>" "\<lparr>alarms = [], dynamicRules = [], tabs = [\<lparr>url = ''about:blank''\<rparr>]\<rparr>"]
  by (simp add: onAlarm_def tabs_create_def openedTabs_def)

end
